theory Spec2Isabelle
  imports Complex_Main "HOL-Library.Product_Lexorder"
begin

section \<open>Selective TSP solver (app/routing/stsp.py): data model\<close>

text \<open>
  The solver is Python 2 code over numpy arrays. Location indices are natural numbers,
  costs and fitness values are modelled as reals (the rounding of the float fields of
  the population array is not part of the model). What does depend on the numeric type
  is \<open>_calc_fitness\<close>: its array has an integer dtype when \<open>max_cost\<close> is a Python
  \<open>int\<close> and the profits, if given, are integers, so \<open>max_cost\<close> and the profits carry
  their type. The distance matrix is a total
  function together with its dimension; \<open>calc_tour\<close> checks that \<open>start\<close> and
  \<open>end\<close> are valid indices before anything else reads the matrix, and every other
  index the solver uses is drawn from \<open>[0, n_points)\<close>.
\<close>

datatype error = IndexError | ValueError | TypeError

text \<open>A Python number: an \<open>int\<close> or a \<open>float\<close>.\<close>

datatype py_num = PyInt int | PyFloat real

fun num_val :: "py_num \<Rightarrow> real" where
  "num_val (PyInt i) = real_of_int i"
| "num_val (PyFloat x) = x"

fun is_py_int :: "py_num \<Rightarrow> bool" where
  "is_py_int (PyInt i) = True"
| "is_py_int (PyFloat x) = False"

text \<open>The profit vector as a numpy array: all of its entries are integers, or all are
  floats.\<close>

datatype profit_vector = IntProfits "nat \<Rightarrow> int" | FloatProfits "nat \<Rightarrow> real"

fun profit_at :: "profit_vector \<Rightarrow> nat \<Rightarrow> real" where
  "profit_at (IntProfits W) j = real_of_int (W j)"
| "profit_at (FloatProfits W) j = W j"

fun int_profits :: "profit_vector \<Rightarrow> bool" where
  "int_profits (IntProfits W) = True"
| "int_profits (FloatProfits W) = False"

record individual =
  path :: "nat list"
  cost :: real
  fitness :: real

record config =
  start :: nat
  endp :: nat
  distances :: "nat \<Rightarrow> nat \<Rightarrow> real"
  n_points :: nat
  max_cost_arg :: py_num
  profits :: "profit_vector option"
  population_size :: nat
  tournament_size :: nat
  min_generations :: nat
  max_generations :: nat
  termination_threshold :: real
  max_runtime :: real
  numpy_legacy_cast :: bool

text \<open>
  The last field is not an argument of the solver but a fact about the numpy it runs
  on: before numpy 1.10 an in-place operation casts a float result into an integer
  array, from 1.10 on it raises TypeError.

  The budget as a number, whatever its Python type.
\<close>

definition max_cost :: "config \<Rightarrow> real" where
  "max_cost cfg = num_val (max_cost_arg cfg)"

text \<open>\<open>distances[p[:-1], p[1:]].sum()\<close>: the sum over consecutive pairs of a path.\<close>

definition path_cost :: "(nat \<Rightarrow> nat \<Rightarrow> real) \<Rightarrow> nat list \<Rightarrow> real" where
  "path_cost D p = sum_list (map (\<lambda>(a, b). D a b) (zip (butlast p) (tl p)))"

subsection \<open>Fitness\<close>

text \<open>
  \<open>_calc_fitness\<close> builds \<open>(profits + path_lens) * max_cost\<close> when profits are given
  and \<open>path_lens * max_cost\<close> otherwise, and then subtracts the costs in place,
  \<open>fitness -= costs\<close>. \<open>path_lens\<close> is an integer array, so the product is an integer
  array exactly when \<open>max_cost\<close> is a Python \<open>int\<close> and the profits, if given, are
  integers.
\<close>

definition int_fitness :: "config \<Rightarrow> bool" where
  "int_fitness cfg \<longleftrightarrow>
     is_py_int (max_cost_arg cfg)
     \<and> (case profits cfg of None \<Rightarrow> True | Some W \<Rightarrow> int_profits W)"

text \<open>The cast of a float to an integer, as C does it: towards zero.\<close>

definition c_trunc :: "real \<Rightarrow> real" where
  "c_trunc x = (if 0 \<le> x then real_of_int \<lfloor>x\<rfloor> else real_of_int \<lceil>x\<rceil>)"

text \<open>The fitness value of one individual, when \<open>_calc_fitness\<close> returns: on an
  integer array the float difference is cast back into the array.\<close>

definition fitness_of :: "config \<Rightarrow> individual \<Rightarrow> real" where
  "fitness_of cfg ind =
     (let base = (case profits cfg of
                    Some W \<Rightarrow> sum_list (map (profit_at W) (path ind)) + real (length (path ind))
                  | None \<Rightarrow> real (length (path ind)));
          fit = base * max_cost cfg - cost ind
      in if int_fitness cfg then c_trunc fit else fit)"

definition fitness_values :: "config \<Rightarrow> individual list \<Rightarrow> real list" where
  "fitness_values cfg population = map (fitness_of cfg) population"

text \<open>\<open>_calc_fitness\<close>: on an integer array the in-place subtraction raises TypeError
  unless numpy still casts in place.\<close>

definition calc_fitness :: "config \<Rightarrow> individual list \<Rightarrow> error + real list" where
  "calc_fitness cfg population =
     (if int_fitness cfg \<and> \<not> numpy_legacy_cast cfg then Inl TypeError
      else Inr (fitness_values cfg population))"

subsection \<open>Removing duplicates from a path\<close>

text \<open>The list comprehension of \<open>_unique_path\<close>: an element is kept when it is not in
  \<open>seen\<close>, and is then added to \<open>seen\<close>.\<close>

fun unique_scan :: "nat set \<Rightarrow> nat list \<Rightarrow> nat list" where
  "unique_scan seen [] = []"
| "unique_scan seen (x # xs) =
     (if x \<in> seen then unique_scan seen xs else x # unique_scan (insert x seen) xs)"

text \<open>\<open>path[1:-1]\<close> is \<open>butlast (tl path)\<close>, also on lists shorter than two.\<close>

definition unique_path :: "nat \<Rightarrow> nat \<Rightarrow> nat list \<Rightarrow> nat list" where
  "unique_path s e p = [s] @ unique_scan {s, e} (butlast (tl p)) @ [e]"

text \<open>The specification's wording: the elements of a list in the order of their first
  occurrence, later duplicates dropped.\<close>

definition spec_first_occurrences :: "nat list \<Rightarrow> nat list" where
  "spec_first_occurrences xs = rev (remdups (rev xs))"

subsection \<open>Randomness and Python helpers\<close>

text \<open>
  Every random choice of the solver (\<open>random.choice\<close>, \<open>random.randint\<close>,
  \<open>random.shuffle\<close>, \<open>random.sample\<close>, \<open>numpy.random.randint\<close>) reads an
  external oracle: a tape of natural numbers, read as \<open>0\<close> beyond its end, together with
  the number of draws consumed so far. A draw \<open>r\<close> is mapped into the requested range by
  \<open>mod\<close>.
\<close>

type_synonym rng = "nat list \<times> nat"

definition tape_at :: "nat list \<Rightarrow> nat \<Rightarrow> nat" where
  "tape_at tape i = (if i < length tape then tape ! i else 0)"

definition draw :: "rng \<Rightarrow> nat \<times> rng" where
  "draw g = (tape_at (fst g) (snd g), (fst g, Suc (snd g)))"

text \<open>\<open>random.choice(seq)\<close>, only called on non-empty sequences.\<close>

definition random_choice :: "nat list \<Rightarrow> rng \<Rightarrow> nat \<times> rng" where
  "random_choice xs g = (case draw g of (r, g') \<Rightarrow> (xs ! (r mod length xs), g'))"

text \<open>\<open>random.randint(a, b)\<close>: both ends included, ValueError on an empty range.\<close>

definition py_randint :: "nat \<Rightarrow> nat \<Rightarrow> rng \<Rightarrow> error + (nat \<times> rng)" where
  "py_randint a b g =
     (if b < a then Inl ValueError
      else case draw g of (r, g') \<Rightarrow> Inr (a + r mod (b - a + 1), g'))"

text \<open>\<open>numpy.random.randint(0, n, k)\<close>: \<open>k\<close> draws from \<open>[0, n)\<close>.\<close>

fun np_randint :: "nat \<Rightarrow> nat \<Rightarrow> rng \<Rightarrow> nat list \<times> rng" where
  "np_randint n 0 g = ([], g)"
| "np_randint n (Suc k) g =
     (case draw g of (r, g') \<Rightarrow>
        (case np_randint n k g' of (rs, g'') \<Rightarrow> (r mod n # rs, g'')))"

text \<open>\<open>random.shuffle\<close> of CPython 2.7: for \<open>i\<close> from \<open>len - 1\<close> down to \<open>1\<close>,
  swap \<open>x[i]\<close> with \<open>x[j]\<close> for a random \<open>j\<close> in \<open>[0, i]\<close>.\<close>

fun shuffle_down :: "nat \<Rightarrow> nat list \<Rightarrow> rng \<Rightarrow> nat list \<times> rng" where
  "shuffle_down 0 a g = (a, g)"
| "shuffle_down (Suc i) a g =
     (case draw g of (r, g') \<Rightarrow>
        (let j = r mod (Suc i + 1) in shuffle_down i (a[Suc i := a ! j, j := a ! Suc i]) g'))"

definition random_shuffle :: "nat list \<Rightarrow> rng \<Rightarrow> nat list \<times> rng" where
  "random_shuffle a g = shuffle_down (length a - 1) a g"

text \<open>\<open>numpy.argmax\<close>: the first index of a greatest element, ValueError on an empty
  array.\<close>

fun argmax_scan :: "nat \<Rightarrow> real \<Rightarrow> nat \<Rightarrow> real list \<Rightarrow> nat" where
  "argmax_scan bi bv i [] = bi"
| "argmax_scan bi bv i (x # xs) =
     (if bv < x then argmax_scan i x (Suc i) xs else argmax_scan bi bv (Suc i) xs)"

definition argmax :: "real list \<Rightarrow> error + nat" where
  "argmax xs = (case xs of [] \<Rightarrow> Inl ValueError | x # ys \<Rightarrow> Inr (argmax_scan 0 x 1 ys))"

text \<open>Python slicing \<open>xs[a:b]\<close> with integer bounds: a negative bound counts from the
  end, and both are clipped to the list.\<close>

definition py_bound :: "nat \<Rightarrow> int \<Rightarrow> nat" where
  "py_bound n i = (if i < 0 then nat (max 0 (int n + i)) else min n (nat i))"

definition py_slice :: "'a list \<Rightarrow> int \<Rightarrow> int \<Rightarrow> 'a list" where
  "py_slice xs a b =
     (let lo = py_bound (length xs) a; hi = py_bound (length xs) b
      in take (hi - lo) (drop lo xs))"

text \<open>\<open>list.index(x)\<close> for an element of the list: the position of its first
  occurrence.\<close>

definition index_of :: "nat list \<Rightarrow> nat \<Rightarrow> nat" where
  "index_of xs x = length (takeWhile (\<lambda>y. y \<noteq> x) xs)"

subsection \<open>Initial population\<close>

text \<open>
  Both initialisers grow each individual in a \<open>while True\<close> loop that need not end (a
  row of zero distances keeps the accumulated cost unchanged), so the loop takes fuel:
  \<open>None\<close> is a walk that did not finish within it.
\<close>

definition loop_cands :: "config \<Rightarrow> nat \<Rightarrow> real \<Rightarrow> nat list" where
  "loop_cands cfg ind_last c =
     filter (\<lambda>j. distances cfg ind_last j \<noteq> 0
                \<and> distances cfg ind_last j < 0.5 * max_cost cfg - c)
       [0..<n_points cfg]"

fun loop_walk ::
  "nat \<Rightarrow> config \<Rightarrow> nat list \<Rightarrow> real \<Rightarrow> nat \<Rightarrow> rng \<Rightarrow> ((nat list \<times> real) \<times> rng) option" where
  "loop_walk 0 cfg p c ind_last g = None"
| "loop_walk (Suc fuel) cfg p c ind_last g =
     (let cands = loop_cands cfg ind_last c in
      if cands \<noteq> [] then
        (case random_choice cands g of (ind_next, g') \<Rightarrow>
           if ind_last \<noteq> ind_next \<or> length cands = 1
           then loop_walk fuel cfg (p @ [ind_next]) (c + distances cfg ind_last ind_next)
                  ind_next g'
           else loop_walk fuel cfg p c ind_last g')
      else Some ((p, c), g))"

text \<open>\<open>path + path[::-1][-max(0, len(path) - 1):]\<close>; a slice \<open>[-0:]\<close> is the whole
  list.\<close>

definition loop_close :: "nat list \<Rightarrow> nat list" where
  "loop_close p =
     (let k = length p - 1
      in p @ (if k = 0 then rev p else drop (length p - k) (rev p)))"

text \<open>The walk of \<open>_init_population_loop\<close> starts with \<open>path = [start]\<close> and
  \<open>ind_last = 0\<close>.\<close>

fun init_loop_n :: "nat \<Rightarrow> config \<Rightarrow> nat \<Rightarrow> rng \<Rightarrow> (individual list \<times> rng) option" where
  "init_loop_n fuel cfg 0 g = Some ([], g)"
| "init_loop_n fuel cfg (Suc n) g =
     (case loop_walk fuel cfg [start cfg] 0 0 g of
        None \<Rightarrow> None
      | Some ((p, c), g') \<Rightarrow>
          (case init_loop_n fuel cfg n g' of
             None \<Rightarrow> None
           | Some (inds, g'') \<Rightarrow>
               Some (\<lparr>path = loop_close p, cost = 2 * c, fitness = 0\<rparr> # inds, g'')))"

definition init_population_loop :: "nat \<Rightarrow> config \<Rightarrow> rng \<Rightarrow> (individual list \<times> rng) option" where
  "init_population_loop fuel cfg g = init_loop_n fuel cfg (population_size cfg) g"

definition tour_cands :: "config \<Rightarrow> nat \<Rightarrow> nat \<Rightarrow> real \<Rightarrow> nat list" where
  "tour_cands cfg e ind_last c =
     filter (\<lambda>j. j \<noteq> e \<and> j \<noteq> ind_last)
       (filter (\<lambda>j. distances cfg ind_last j + distances cfg e j \<le> max_cost cfg - c)
          [0..<n_points cfg])"

fun tour_walk ::
  "nat \<Rightarrow> config \<Rightarrow> nat \<Rightarrow> nat list \<Rightarrow> real \<Rightarrow> nat \<Rightarrow> rng \<Rightarrow> ((nat list \<times> real) \<times> rng) option" where
  "tour_walk 0 cfg e p c ind_last g = None"
| "tour_walk (Suc fuel) cfg e p c ind_last g =
     (let cands = tour_cands cfg e ind_last c in
      if cands \<noteq> [] then
        (case random_choice cands g of (ind_next, g') \<Rightarrow>
           if ind_last \<noteq> ind_next
           then tour_walk fuel cfg e (p @ [ind_next]) (c + distances cfg ind_last ind_next)
                  ind_next g'
           else tour_walk fuel cfg e p c ind_last g')
      else Some ((p @ [e], c + distances cfg ind_last e), g))"

text \<open>The inner \<open>for i in xrange(i_from, i_to)\<close> of \<open>_init_population_tour\<close>: \<open>n\<close>
  individuals grown from \<open>s\<close> towards \<open>e\<close>, reversed when \<open>s\<close> is not the solver's
  start.\<close>

fun tour_build_n ::
  "nat \<Rightarrow> config \<Rightarrow> nat \<Rightarrow> nat \<Rightarrow> nat \<Rightarrow> rng \<Rightarrow> (individual list \<times> rng) option" where
  "tour_build_n fuel cfg s e 0 g = Some ([], g)"
| "tour_build_n fuel cfg s e (Suc n) g =
     (case tour_walk fuel cfg e [s] 0 s g of
        None \<Rightarrow> None
      | Some ((p, c), g') \<Rightarrow>
          (case tour_build_n fuel cfg s e n g' of
             None \<Rightarrow> None
           | Some (inds, g'') \<Rightarrow>
               Some (\<lparr>path = (if s \<noteq> start cfg then rev p else p), cost = c, fitness = 0\<rparr>
                       # inds, g'')))"

text \<open>The outer loop: \<open>mid = population_size / 2\<close> (integer division of Python 2) and
  the two segments \<open>(i_from, i_to, start, end)\<close>.\<close>

definition tour_segments :: "config \<Rightarrow> (nat \<times> nat \<times> nat \<times> nat) list" where
  "tour_segments cfg =
     (let mid = population_size cfg div 2
      in [(0, mid, start cfg, endp cfg), (mid, population_size cfg, endp cfg, start cfg)])"

fun tour_fill ::
  "nat \<Rightarrow> config \<Rightarrow> (nat \<times> nat \<times> nat \<times> nat) list \<Rightarrow> rng \<Rightarrow> (individual list \<times> rng) option" where
  "tour_fill fuel cfg [] g = Some ([], g)"
| "tour_fill fuel cfg ((i_from, i_to, s, e) # segs) g =
     (case tour_build_n fuel cfg s e (i_to - i_from) g of
        None \<Rightarrow> None
      | Some (inds, g') \<Rightarrow>
          (case tour_fill fuel cfg segs g' of
             None \<Rightarrow> None
           | Some (inds', g'') \<Rightarrow> Some (inds @ inds', g'')))"

definition init_population_tour :: "nat \<Rightarrow> config \<Rightarrow> rng \<Rightarrow> (individual list \<times> rng) option" where
  "init_population_tour fuel cfg g = tour_fill fuel cfg (tour_segments cfg) g"

text \<open>The \<open>is_reverse\<close> flag of every population slot, in slot order.\<close>

definition tour_directions :: "config \<Rightarrow> bool list" where
  "tour_directions cfg =
     concat (map (\<lambda>(i_from, i_to, s, e). replicate (i_to - i_from) (s \<noteq> start cfg))
               (tour_segments cfg))"

definition init_population :: "nat \<Rightarrow> config \<Rightarrow> rng \<Rightarrow> (individual list \<times> rng) option" where
  "init_population fuel cfg g =
     (if start cfg = endp cfg then init_population_loop fuel cfg g
      else init_population_tour fuel cfg g)"

subsection \<open>Solver state\<close>

text \<open>\<open>_init\<close> allocates the best log \<open>fittest\<close> with \<open>max_generations\<close> zeroed
  entries (the zero of the object field \<open>path\<close> is modelled as the empty list).\<close>

record solver_state =
  population :: "individual list"
  fittest :: "individual list"
  current_generation :: nat
  rand :: rng

definition zero_individual :: individual where
  "zero_individual = \<lparr>path = [], cost = 0, fitness = 0\<rparr>"

subsection \<open>Selection\<close>

text \<open>The offspring loop of \<open>_do_selection\<close>: each slot draws
  \<open>numpy.random.randint(0, n, 10)\<close> and copies the sampled individual at the argmax of
  the sampled fitness values. The sample has ten elements, so this \<open>argmax\<close> never
  fails and its error branch is not reached.\<close>

definition tournament_winner :: "real list \<Rightarrow> nat list \<Rightarrow> nat" where
  "tournament_winner fit i_samples =
     (case argmax (map (\<lambda>i. fit ! i) i_samples) of
        Inl e \<Rightarrow> 0
      | Inr k \<Rightarrow> i_samples ! k)"

fun select_offspring ::
  "nat \<Rightarrow> nat \<Rightarrow> individual list \<Rightarrow> real list \<Rightarrow> rng \<Rightarrow> individual list \<times> rng" where
  "select_offspring 0 n pop fit g = ([], g)"
| "select_offspring (Suc k) n pop fit g =
     (case np_randint n 10 g of (i_samples, g') \<Rightarrow>
        (case select_offspring k n pop fit g' of (rest, g'') \<Rightarrow>
           (pop ! tournament_winner fit i_samples # rest, g'')))"

definition do_selection :: "config \<Rightarrow> solver_state \<Rightarrow> error + solver_state" where
  "do_selection cfg st =
     (case calc_fitness cfg (population st) of
        Inl e \<Rightarrow> Inl e
      | Inr fit \<Rightarrow>
          (let pop = map (\<lambda>(ind, f). ind\<lparr>fitness := f\<rparr>) (zip (population st) fit);
               n = population_size cfg
           in case argmax fit of
                Inl e \<Rightarrow> Inl e
              | Inr b \<Rightarrow>
                  if length (fittest st) \<le> current_generation st then Inl IndexError
                  else (case select_offspring n n pop fit (rand st) of (offspring, g') \<Rightarrow>
                          Inr (st\<lparr>population := offspring,
                                   fittest := (fittest st)[current_generation st := pop ! b],
                                   rand := g'\<rparr>))))"

subsection \<open>Crossover\<close>

text \<open>The common genes of a couple, without start and end; \<open>random.sample\<close> picks one
  of them.\<close>

definition common_genes :: "config \<Rightarrow> nat list \<Rightarrow> nat list \<Rightarrow> nat list" where
  "common_genes cfg p q =
     filter (\<lambda>x. x \<in> set q \<and> x \<noteq> start cfg \<and> x \<noteq> endp cfg) (remdups p)"

definition cross_pair ::
  "config \<Rightarrow> nat \<Rightarrow> nat \<Rightarrow> individual list \<Rightarrow> rng \<Rightarrow> individual list \<times> rng" where
  "cross_pair cfg i_individual i_partner pop g =
     (let individual = pop ! i_individual;
          partner = pop ! i_partner;
          common = common_genes cfg (path individual) (path partner)
      in if common = [] then (pop, g)
         else (case random_choice common g of (crossing_gene, g') \<Rightarrow>
           (let i_cross_individual = index_of (path individual) crossing_gene + 1;
                i_cross_partner = index_of (path partner) crossing_gene + 1;
                first_child = take i_cross_individual (path individual)
                                @ drop i_cross_partner (path partner);
                second_child = take i_cross_partner (path partner)
                                 @ drop i_cross_individual (path individual);
                c1 = path_cost (distances cfg) first_child;
                pop1 = (if c1 < max_cost cfg
                        then pop[i_individual := (pop ! i_individual)\<lparr>path := first_child, cost := c1\<rparr>]
                        else pop);
                c2 = path_cost (distances cfg) second_child;
                pop2 = (if c2 < max_cost cfg
                        then pop1[i_partner := (pop1 ! i_partner)\<lparr>path := second_child, cost := c2\<rparr>]
                        else pop1)
            in (pop2, g'))))"

text \<open>\<open>_iter_couples\<close> is a generator: for \<open>i\<close> in \<open>xrange(0, n, 2)\<close> it reads \<open>a[i]\<close>
  and \<open>a[i + 1]\<close> and yields the couple, which \<open>_do_crossover\<close> processes before the
  next one is formed. Reading \<open>a[i + 1]\<close> past the end raises IndexError.\<close>

definition couple_starts :: "nat \<Rightarrow> nat list" where
  "couple_starts n = map (\<lambda>k. 2 * k) [0..<(n + 1) div 2]"

fun cross_couples ::
  "config \<Rightarrow> nat list \<Rightarrow> nat list \<Rightarrow> individual list \<Rightarrow> rng \<Rightarrow> error + (individual list \<times> rng)" where
  "cross_couples cfg a [] pop g = Inr (pop, g)"
| "cross_couples cfg a (i # is) pop g =
     (if length a \<le> i + 1 then Inl IndexError
      else (case cross_pair cfg (a ! i) (a ! (i + 1)) pop g of
              (pop', g') \<Rightarrow> cross_couples cfg a is pop' g'))"

definition do_crossover :: "config \<Rightarrow> solver_state \<Rightarrow> error + solver_state" where
  "do_crossover cfg st =
     (let n = population_size cfg
      in case random_shuffle [0..<n] (rand st) of (a, g) \<Rightarrow>
           (case cross_couples cfg a (couple_starts n) (population st) g of
              Inl e \<Rightarrow> Inl e
            | Inr (pop, g') \<Rightarrow> Inr (st\<lparr>population := pop, rand := g'\<rparr>)))"

subsection \<open>Mutation\<close>

text \<open>The candidate order: \<open>numpy.lexsort([increments, -profits])\<close> sorts by its last
  key first, so by descending profit and then by ascending distance;
  \<open>numpy.argsort(increments)\<close> by ascending distance. Ties keep index order.\<close>

definition insert_order :: "config \<Rightarrow> nat \<Rightarrow> nat list" where
  "insert_order cfg from =
     (case profits cfg of
        Some W \<Rightarrow> sort_key (\<lambda>j. (- profit_at W j, distances cfg from j)) [0..<n_points cfg]
      | None \<Rightarrow> sort_key (\<lambda>j. distances cfg from j) [0..<n_points cfg])"

text \<open>The insertion loop: a candidate already on the path is skipped, one that fits is
  inserted at \<open>i_insert\<close>, and the first one that does not fit ends the loop.\<close>

fun insert_cands :: "config \<Rightarrow> nat \<Rightarrow> nat list \<Rightarrow> nat list \<Rightarrow> real \<Rightarrow> nat list \<times> real" where
  "insert_cands cfg i_insert [] p c = (p, c)"
| "insert_cands cfg i_insert (ins_cand # rest) p c =
     (if ins_cand \<notin> set p then
        (let path_new = take i_insert p @ [ins_cand] @ drop i_insert p;
             c_temp = path_cost (distances cfg) path_new
         in if c_temp < max_cost cfg then insert_cands cfg i_insert rest path_new c_temp
            else (p, c))
      else insert_cands cfg i_insert rest p c)"

text \<open>The first half of the loop body of \<open>_do_mutation\<close>: the path without duplicates,
  the cost written from it, and then \<open>del path[i_remove]\<close>, which changes the stored
  path and leaves the stored cost.\<close>

definition remove_gene :: "config \<Rightarrow> individual \<Rightarrow> rng \<Rightarrow> error + (individual \<times> rng)" where
  "remove_gene cfg ind g =
     (if length (path ind) > 2 then
        (let path_new = unique_path (start cfg) (endp cfg) (path ind);
             cost_new = path_cost (distances cfg) path_new
         in case py_randint 1 (length path_new - 2) g of
              Inl e \<Rightarrow> Inl e
            | Inr (i_remove, g') \<Rightarrow>
                Inr (ind\<lparr>path := take i_remove path_new @ drop (Suc i_remove) path_new,
                         cost := cost_new\<rparr>, g'))
      else Inr (ind, g))"

definition mutate_individual :: "config \<Rightarrow> individual \<Rightarrow> rng \<Rightarrow> error + (individual \<times> rng)" where
  "mutate_individual cfg ind g =
     (case remove_gene cfg ind g of
        Inl e \<Rightarrow> Inl e
      | Inr (ind1, g1) \<Rightarrow>
          (case py_randint 1 (length (path ind1) - 1) g1 of
             Inl e \<Rightarrow> Inl e
           | Inr (i_insert, g2) \<Rightarrow>
               (let from = path ind1 ! (i_insert - 1);
                    i_sorted = insert_order cfg from
                in case insert_cands cfg i_insert i_sorted (path ind1) (cost ind1) of
                     (p, c) \<Rightarrow> Inr (ind1\<lparr>path := p, cost := c\<rparr>, g2))))"

fun mutate_all :: "config \<Rightarrow> individual list \<Rightarrow> rng \<Rightarrow> error + (individual list \<times> rng)" where
  "mutate_all cfg [] g = Inr ([], g)"
| "mutate_all cfg (ind # inds) g =
     (case mutate_individual cfg ind g of
        Inl e \<Rightarrow> Inl e
      | Inr (ind', g') \<Rightarrow>
          (case mutate_all cfg inds g' of
             Inl e \<Rightarrow> Inl e
           | Inr (inds', g'') \<Rightarrow> Inr (ind' # inds', g'')))"

definition do_mutation :: "config \<Rightarrow> solver_state \<Rightarrow> error + solver_state" where
  "do_mutation cfg st =
     (case mutate_all cfg (population st) (rand st) of
        Inl e \<Rightarrow> Inl e
      | Inr (pop, g) \<Rightarrow> Inr (st\<lparr>population := pop, rand := g\<rparr>))"

subsection \<open>Generation controller\<close>

text \<open>
  The convergence test of \<open>_iter_generations\<close> at generation \<open>g > min_generations\<close>.
  Both slices have non-negative bounds there. The quotient \<open>delta_cost / max_cost\<close> is a
  numpy float division: with \<open>max_cost = 0\<close> it is \<open>inf\<close> or \<open>nan\<close>, which is not
  below the threshold.
\<close>

definition converged :: "config \<Rightarrow> nat \<Rightarrow> individual list \<Rightarrow> error + bool" where
  "converged cfg generation best_log =
     (let compare_generations = min (min_generations cfg) 5;
          last_ng = py_slice best_log (int generation - int compare_generations - 1)
                      (int generation - 1);
          compare_to = py_slice best_log 0 (int generation - int compare_generations)
      in case argmax (map fitness last_ng) of
           Inl e \<Rightarrow> Inl e
         | Inr i \<Rightarrow>
             (case argmax (map fitness compare_to) of
                Inl e \<Rightarrow> Inl e
              | Inr j \<Rightarrow>
                  (let delta_fitness = fitness (last_ng ! i) - fitness (compare_to ! j);
                       delta_cost = Max (set (map cost last_ng)) - Min (set (map cost last_ng))
                   in Inr (delta_fitness < max_cost cfg
                           \<and> max_cost cfg \<noteq> 0
                           \<and> delta_cost / max_cost cfg < termination_threshold cfg))))"

text \<open>One pass of the body of \<open>_run\<close>'s loop.\<close>

definition generation_step :: "config \<Rightarrow> nat \<Rightarrow> solver_state \<Rightarrow> error + solver_state" where
  "generation_step cfg generation st =
     (case do_crossover cfg (st\<lparr>current_generation := generation\<rparr>) of
        Inl e \<Rightarrow> Inl e
      | Inr st1 \<Rightarrow>
          (case do_mutation cfg st1 of
             Inl e \<Rightarrow> Inl e
           | Inr st2 \<Rightarrow> do_selection cfg st2))"

text \<open>
  \<open>for generation in self._iter_generations()\<close>: the first argument counts the
  generations left of \<open>xrange(max_generations)\<close>. \<open>elapsed g\<close> is the reading of
  \<open>time.time() - start_time\<close> at the check of generation \<open>g\<close>, in seconds.
\<close>

fun generations ::
  "config \<Rightarrow> (nat \<Rightarrow> real) \<Rightarrow> nat \<Rightarrow> nat \<Rightarrow> solver_state \<Rightarrow> error + solver_state" where
  "generations cfg elapsed 0 generation st = Inr st"
| "generations cfg elapsed (Suc left) generation st =
     (if elapsed generation > max_runtime cfg / 1000 then Inr st
      else if generation > min_generations cfg then
        (case converged cfg generation (fittest st) of
           Inl e \<Rightarrow> Inl e
         | Inr stop \<Rightarrow>
             if stop then Inr st
             else (case generation_step cfg generation st of
                     Inl e \<Rightarrow> Inl e
                   | Inr st' \<Rightarrow> generations cfg elapsed left (Suc generation) st'))
      else (case generation_step cfg generation st of
              Inl e \<Rightarrow> Inl e
            | Inr st' \<Rightarrow> generations cfg elapsed left (Suc generation) st'))"

text \<open>\<open>_init\<close> followed by \<open>_run\<close>. The outer \<open>option\<close> is \<open>None\<close> when a walk of the
  initialiser did not finish within the fuel.\<close>

definition run ::
  "nat \<Rightarrow> config \<Rightarrow> (nat \<Rightarrow> real) \<Rightarrow> rng \<Rightarrow> (error + solver_state) option" where
  "run fuel cfg elapsed g =
     (case init_population fuel cfg g of
        None \<Rightarrow> None
      | Some (pop, g') \<Rightarrow>
          Some (case do_selection cfg
                       \<lparr>population = pop,
                        fittest = replicate (max_generations cfg) zero_individual,
                        current_generation = 0, rand = g'\<rparr> of
                  Inl e \<Rightarrow> Inl e
                | Inr st \<Rightarrow> generations cfg elapsed (max_generations cfg) 0 st))"

subsection \<open>Result extraction\<close>

text \<open>The last four lines of \<open>calc_tour\<close>. \<open>last_ng or self.current_generation\<close>
  replaces \<open>None\<close> and \<open>0\<close> by the current generation.\<close>

definition window_size :: "int option \<Rightarrow> nat \<Rightarrow> int" where
  "window_size last_ng generation =
     (case last_ng of
        None \<Rightarrow> int generation
      | Some n \<Rightarrow> if n = 0 then int generation else n)"

definition compare_group :: "solver_state \<Rightarrow> int option \<Rightarrow> individual list" where
  "compare_group st last_ng =
     py_slice (fittest st)
       (int (current_generation st) - window_size last_ng (current_generation st))
       (int (current_generation st))"

definition extract_tour :: "solver_state \<Rightarrow> int option \<Rightarrow> error + (nat list \<times> real)" where
  "extract_tour st last_ng =
     (let group = compare_group st last_ng
      in case argmax (map fitness group) of
           Inl e \<Rightarrow> Inl e
         | Inr i \<Rightarrow> Inr (path (group ! i), cost (group ! i)))"

text \<open>\<open>calc_tour\<close>. Reading \<open>distances[start, end]\<close> raises IndexError for an index
  outside the matrix.\<close>

definition calc_tour ::
  "nat \<Rightarrow> config \<Rightarrow> (nat \<Rightarrow> real) \<Rightarrow> rng \<Rightarrow> int option \<Rightarrow> (error + (nat list \<times> real)) option" where
  "calc_tour fuel cfg elapsed g last_ng =
     (if n_points cfg \<le> start cfg \<or> n_points cfg \<le> endp cfg then Some (Inl IndexError)
      else if max_cost cfg < distances cfg (start cfg) (endp cfg) then Some (Inr ([], 0))
      else (case run fuel cfg elapsed g of
              None \<Rightarrow> None
            | Some (Inl e) \<Rightarrow> Some (Inl e)
            | Some (Inr st) \<Rightarrow> Some (extract_tour st last_ng)))"

subsection \<open>Constructor and concrete configurations\<close>

text \<open>\<open>GaSolver.__init__\<close> with its default arguments, on the numpy of the
  repository's time (Python 2, in-place casts still allowed).\<close>

definition GaSolver :: "nat \<Rightarrow> nat \<Rightarrow> (nat \<Rightarrow> nat \<Rightarrow> real) \<Rightarrow> nat \<Rightarrow> py_num \<Rightarrow> config" where
  "GaSolver s e D N M =
     \<lparr>start = s, endp = e, distances = D, n_points = N, max_cost_arg = M, profits = None,
      population_size = 1000, tournament_size = 5, min_generations = 5,
      max_generations = 200, termination_threshold = 0.01, max_runtime = 10000,
      numpy_legacy_cast = True\<rparr>"

text \<open>A distance matrix given by its rows.\<close>

definition matrix :: "real list list \<Rightarrow> nat \<Rightarrow> nat \<Rightarrow> real" where
  "matrix rows i j = rows ! i ! j"

text \<open>The oracle that always answers \<open>0\<close>, and a clock that never advances.\<close>

definition zero_rng :: rng where
  "zero_rng = ([], 0)"

definition no_time :: "nat \<Rightarrow> real" where
  "no_time g = 0"

text \<open>Three locations on a line, float budget 10.0, without and with float
  profits.\<close>

definition fit_cfg :: config where
  "fit_cfg = GaSolver 0 1 (matrix [ [0, 4, 2], [4, 0, 2], [2, 2, 0]]) 3 (PyFloat 10)"

definition fit_cfg_w :: config where
  "fit_cfg_w = fit_cfg\<lparr>profits := Some (FloatProfits (\<lambda>j. if j = 2 then 5 else 0))\<rparr>"

text \<open>Two locations with an asymmetric matrix and an odd population.\<close>

definition odd_cfg :: config where
  "odd_cfg = (GaSolver 0 1 (matrix [ [0, 1], [2, 0]]) 2 (PyFloat 10))\<lparr>population_size := 3\<rparr>"

text \<open>A population of two on the line of \<open>fit_cfg\<close>, before a selection.\<close>

definition sel_cfg :: config where
  "sel_cfg = fit_cfg\<lparr>population_size := 2, max_generations := 1\<rparr>"

definition sel_state :: solver_state where
  "sel_state =
     \<lparr>population = [\<lparr>path = [0, 1], cost = 4, fitness = 0\<rparr>,
                    \<lparr>path = [0, 2, 1], cost = 4, fitness = 0\<rparr>],
      fittest = [zero_individual], current_generation = 0, rand = ([1], 0)\<rparr>"

text \<open>The ten indices that \<open>numpy.random.randint(0, n, 10)\<close> returns for offspring slot
  \<open>j\<close> when the selection starts with the oracle \<open>g\<close>.\<close>

definition tournament_samples :: "nat \<Rightarrow> rng \<Rightarrow> nat \<Rightarrow> nat list" where
  "tournament_samples n g j =
     map (\<lambda>i. tape_at (fst g) (snd g + 10 * j + i) mod n) [0..<10]"


text \<open>Three locations with a symmetric matrix; the detour over location 2 costs
  exactly the budget.\<close>

definition tight_cfg :: config where
  "tight_cfg = (GaSolver 0 1 (matrix [ [0, 8, 5], [8, 0, 5], [5, 5, 0]]) 3 (PyFloat 10))
                 \<lparr>population_size := 2, max_generations := 2\<rparr>"

text \<open>Five locations with a symmetric matrix, run for two and for three
  generations.\<close>

definition stale_cfg :: config where
  "stale_cfg = (GaSolver 0 1 (matrix [ [0, 6, 3, 4, 1],
                                      [6, 0, 5, 3, 9],
                                      [3, 5, 0, 2, 9],
                                      [4, 3, 2, 0, 8],
                                      [1, 9, 9, 8, 0]]) 5 (PyFloat 10))
                 \<lparr>population_size := 2, max_generations := 2\<rparr>"

definition window_cfg :: config where
  "window_cfg = stale_cfg\<lparr>max_generations := 3\<rparr>"

text \<open>Five locations and the integer budget 10, as the repository's tests and API pass
  it (\<open>MAX_COST = 1000\<close>, \<open>int(request.values['time_s'])\<close>), with a population of four
  whose stored costs are the costs of their paths.\<close>

definition int_cfg :: config where
  "int_cfg = (GaSolver 0 1 (matrix [ [0, 0, 2, 2, 4.5],
                                    [0, 0, 2.25, 2.75, 5],
                                    [2, 2.25, 0, 1, 1],
                                    [2, 2.75, 1, 0, 1],
                                    [4.5, 5, 1, 1, 0]]) 5 (PyInt 10))
               \<lparr>population_size := 4\<rparr>"

definition int_population :: "individual list" where
  "int_population =
     [\<lparr>path = [0, 2, 1], cost = 4.25, fitness = 0\<rparr>,
      \<lparr>path = [0, 3, 1], cost = 4.75, fitness = 0\<rparr>,
      \<lparr>path = [0, 4, 1], cost = 9.5, fitness = 0\<rparr>,
      \<lparr>path = [0, 1], cost = 0, fitness = 0\<rparr>]"

subsection \<open>Invariant of the run\<close>


section \<open>Properties\<close>

lemma remdups_snoc:
  "remdups (xs @ [x]) = remdups (filter (\<lambda>y. y \<noteq> x) xs) @ [x]"
  by (induction xs) auto

lemma spec_first_occurrences_Cons:
  "spec_first_occurrences (x # xs) = x # spec_first_occurrences (filter (\<lambda>y. y \<noteq> x) xs)"
  by (simp add: spec_first_occurrences_def remdups_snoc rev_filter)

lemma unique_scan_spec:
  "unique_scan seen xs = spec_first_occurrences (filter (\<lambda>x. x \<notin> seen) xs)"
proof (induction xs arbitrary: seen)
  case Nil
  show ?case by (simp add: spec_first_occurrences_def)
next
  case (Cons x xs)
  have comp: "filter (\<lambda>y. y \<noteq> x) (filter (\<lambda>y. y \<notin> seen) xs) = filter (\<lambda>y. y \<notin> insert x seen) xs"
    by (induction xs) auto
  show ?case
  proof (cases "x \<in> seen")
    case True
    then show ?thesis by (simp add: Cons.IH)
  next
    case False
    then have "unique_scan seen (x # xs)
        = x # spec_first_occurrences (filter (\<lambda>y. y \<notin> insert x seen) xs)"
      by (simp only: unique_scan.simps if_False Cons.IH)
    also have "\<dots> = x # spec_first_occurrences
        (filter (\<lambda>y. y \<noteq> x) (filter (\<lambda>y. y \<notin> seen) xs))"
      by (simp only: comp)
    also have "\<dots> = spec_first_occurrences (x # filter (\<lambda>y. y \<notin> seen) xs)"
      by (simp only: spec_first_occurrences_Cons)
    also have "\<dots> = spec_first_occurrences (filter (\<lambda>y. y \<notin> seen) (x # xs))"
      using False by simp
    finally show ?thesis .
  qed
qed

lemma unique_path_test_instance:
  "unique_path 0 0 [0, 1, 0, 3, 1, 4, 9, 5, 3, 0] = [0, 1, 3, 4, 9, 5, 0]"
  by (simp add: unique_path_def)

text \<open>
  C8. \<open>unique_path\<close> returns \<open>start\<close>, then the interior elements in first-occurrence
  order with duplicates and every occurrence of \<open>start\<close> or \<open>end\<close> removed, then
  \<open>end\<close>. It holds for every input list, so in particular for those of length at least
  two that begin with \<open>start\<close> and finish with \<open>end\<close>; the instance of the test suite is
  the second conjunct.
\<close>

theorem unique_path_first_occurrences:
  "unique_path s e p
     = [s] @ spec_first_occurrences (filter (\<lambda>x. x \<noteq> s \<and> x \<noteq> e) (butlast (tl p))) @ [e]
   \<and> unique_path 0 0 [0, 1, 0, 3, 1, 4, 9, 5, 3, 0] = [0, 1, 3, 4, 9, 5, 0]"
proof
  have "(\<lambda>x. x \<notin> {s, e}) = (\<lambda>x. x \<noteq> s \<and> x \<noteq> e)"
    by auto
  then show "unique_path s e p
     = [s] @ spec_first_occurrences (filter (\<lambda>x. x \<noteq> s \<and> x \<noteq> e) (butlast (tl p))) @ [e]"
    by (simp add: unique_path_def unique_scan_spec)
next
  show "unique_path 0 0 [0, 1, 0, 3, 1, 4, 9, 5, 3, 0] = [0, 1, 3, 4, 9, 5, 0]"
    by (rule unique_path_test_instance)
qed

subsection \<open>Fitness order\<close>

lemma fitness_of_float_None:
  "\<not> int_fitness cfg \<Longrightarrow> profits cfg = None \<Longrightarrow>
     fitness_of cfg a = real (length (path a)) * max_cost cfg - cost a"
  by (simp add: fitness_of_def)

lemma fitness_of_float_Some:
  "\<not> int_fitness cfg \<Longrightarrow> profits cfg = Some W \<Longrightarrow>
     fitness_of cfg a
       = (sum_list (map (profit_at W) (path a)) + real (length (path a))) * max_cost cfg
           - cost a"
  by (simp add: fitness_of_def)

lemma longer_path_fitter:
  fixes m :: real
  assumes "0 < m" "0 \<le> cb" "ca < m" and len: "(lb::nat) < la"
  shows "real lb * m - cb < real la * m - ca"
proof -
  have "real lb + 1 \<le> real la" using len by simp
  then have "(real lb + 1) * m \<le> real la * m"
    using \<open>0 < m\<close> by (simp only: mult_le_cancel_right_pos)
  then have "real lb * m + m \<le> real la * m" by (simp add: algebra_simps)
  then show ?thesis using assms by linarith
qed

text \<open>On a float fitness array the order is the one the docstring of \<open>_calc_fitness\<close>
  describes (path length descending, cost ascending), in exact arithmetic.\<close>

lemma fitness_order_float:
  assumes "\<not> int_fitness cfg" "0 < max_cost cfg"
    and "0 \<le> cost a" "cost a < max_cost cfg"
    and "0 \<le> cost b" "cost b < max_cost cfg"
  shows "(profits cfg = None \<longrightarrow> length (path b) < length (path a) \<longrightarrow>
            fitness_of cfg b < fitness_of cfg a)
       \<and> (profits cfg = None \<longrightarrow> length (path a) = length (path b) \<longrightarrow>
            (fitness_of cfg b < fitness_of cfg a \<longleftrightarrow> cost a < cost b))
       \<and> (\<forall>W. profits cfg = Some W \<longrightarrow> length (path a) = length (path b) \<longrightarrow>
            cost a = cost b \<longrightarrow>
            sum_list (map (profit_at W) (path b)) < sum_list (map (profit_at W) (path a)) \<longrightarrow>
            fitness_of cfg b < fitness_of cfg a)"
proof (intro conjI impI allI)
  assume "profits cfg = None" "length (path b) < length (path a)"
  then show "fitness_of cfg b < fitness_of cfg a"
    using assms
      longer_path_fitter [of "max_cost cfg" "cost b" "cost a" "length (path b)" "length (path a)"]
    by (simp add: fitness_of_float_None)
next
  assume "profits cfg = None" "length (path a) = length (path b)"
  then show "fitness_of cfg b < fitness_of cfg a \<longleftrightarrow> cost a < cost b"
    using assms(1) by (simp add: fitness_of_float_None)
next
  fix W
  assume "profits cfg = Some W" "length (path a) = length (path b)" "cost a = cost b"
    "sum_list (map (profit_at W) (path b)) < sum_list (map (profit_at W) (path a))"
  then show "fitness_of cfg b < fitness_of cfg a"
    using assms(1) \<open>0 < max_cost cfg\<close> by (simp add: fitness_of_float_Some)
qed

lemma fitness_order_float_instance:
  "fitness_of fit_cfg \<lparr>path = [0, 1], cost = 4, fitness = 0\<rparr>
     < fitness_of fit_cfg \<lparr>path = [0, 2, 1], cost = 9, fitness = 0\<rparr>
   \<and> fitness_of fit_cfg \<lparr>path = [0, 2, 1], cost = 9, fitness = 0\<rparr>
     < fitness_of fit_cfg \<lparr>path = [0, 2, 1], cost = 4, fitness = 0\<rparr>
   \<and> fitness_of fit_cfg_w \<lparr>path = [0, 0, 1], cost = 4, fitness = 0\<rparr>
     < fitness_of fit_cfg_w \<lparr>path = [0, 2, 1], cost = 4, fitness = 0\<rparr>"
proof -
  have f: "\<not> int_fitness fit_cfg" "\<not> int_fitness fit_cfg_w"
    by (simp_all add: int_fitness_def fit_cfg_def fit_cfg_w_def GaSolver_def)
  show ?thesis
    using
      fitness_order_float [OF f(1), of "\<lparr>path = [0, 2, 1], cost = 9, fitness = 0\<rparr>"
        "\<lparr>path = [0, 1], cost = 4, fitness = 0\<rparr>"]
      fitness_order_float [OF f(1), of "\<lparr>path = [0, 2, 1], cost = 4, fitness = 0\<rparr>"
        "\<lparr>path = [0, 2, 1], cost = 9, fitness = 0\<rparr>"]
      fitness_order_float [OF f(2), of "\<lparr>path = [0, 2, 1], cost = 4, fitness = 0\<rparr>"
        "\<lparr>path = [0, 0, 1], cost = 4, fitness = 0\<rparr>"]
    by (simp add: fit_cfg_def fit_cfg_w_def GaSolver_def max_cost_def)
qed

lemma c_trunc_mono: "x \<le> y \<Longrightarrow> c_trunc x \<le> c_trunc y"
proof -
  assume le: "x \<le> y"
  have "\<lceil>x\<rceil> \<le> \<lfloor>y\<rfloor>" if "x < 0" "0 \<le> y"
  proof -
    have "\<lceil>x\<rceil> \<le> 0" using that(1) by (simp add: ceiling_le_zero)
    moreover have "0 \<le> \<lfloor>y\<rfloor>" using that(2) by simp
    ultimately show ?thesis by linarith
  qed
  then show ?thesis
    using le by (auto simp add: c_trunc_def floor_mono ceiling_mono)
qed

lemma int_population_costs:
  "map (\<lambda>ind. path_cost (distances int_cfg) (path ind)) int_population
     = map cost int_population"
  by code_simp

lemma int_fitness_values:
  "calc_fitness int_cfg int_population = Inr [25, 25, 20, 20]"
  by code_simp

lemma int_fitness_raises:
  "calc_fitness (int_cfg\<lparr>numpy_legacy_cast := False\<rparr>) int_population = Inl TypeError"
  by code_simp

text \<open>
  C7 (the code's behaviour at a failing input). With the integer budget
  \<open>max_cost = 10\<close> and no profits, \<open>path_lens * max_cost\<close> is an integer array and
  \<open>fitness -= costs\<close> casts each difference back to an integer. The two paths of length
  3 with costs 4.25 and 4.75 both get fitness 25, so for equal lengths the fitness order
  is not the reverse of the cost order; the path of length 3 with cost 9.5 and the path
  of length 2 with cost 0 both get fitness 20, so the strictly longer path is not
  strictly fitter. All costs lie in \<open>[0, max_cost)\<close> and are the costs of the stored
  paths. On a numpy without in-place casts the same call raises TypeError.
\<close>

theorem fitness_ties_with_int_max_cost:
  "max_cost int_cfg = 10
   \<and> map (\<lambda>ind. path_cost (distances int_cfg) (path ind)) int_population
       = map cost int_population
   \<and> fitness_of int_cfg \<lparr>path = [0, 2, 1], cost = 4.25, fitness = 0\<rparr> = 25
   \<and> fitness_of int_cfg \<lparr>path = [0, 3, 1], cost = 4.75, fitness = 0\<rparr> = 25
   \<and> fitness_of int_cfg \<lparr>path = [0, 4, 1], cost = 9.5, fitness = 0\<rparr> = 20
   \<and> fitness_of int_cfg \<lparr>path = [0, 1], cost = 0, fitness = 0\<rparr> = 20
   \<and> calc_fitness int_cfg int_population = Inr [25, 25, 20, 20]
   \<and> calc_fitness (int_cfg\<lparr>numpy_legacy_cast := False\<rparr>) int_population = Inl TypeError"
proof -
  have m: "max_cost int_cfg = 10"
    by (simp add: max_cost_def int_cfg_def GaSolver_def)
  have f: "map (fitness_of int_cfg) int_population = [25, 25, 20, 20]"
    using int_fitness_values by (simp add: calc_fitness_def fitness_values_def split: if_splits)
  show ?thesis
    using m f int_population_costs int_fitness_values int_fitness_raises
    by (simp add: int_population_def)
qed

subsection \<open>Result extraction\<close>

lemma extract_tour_zero: "extract_tour st (Some 0) = extract_tour st None"
  by (simp add: extract_tour_def compare_group_def window_size_def)

text \<open>
  C10. \<open>calc_tour\<close> with \<open>last_n = 0\<close> returns what it returns with \<open>last_n\<close> omitted:
  \<open>0\<close> is replaced, like \<open>None\<close>, by \<open>current_generation\<close>, so the comparison group is
  the default window and not a window of zero generations.
\<close>

theorem calc_tour_last_n_zero:
  "calc_tour fuel cfg elapsed g (Some 0) = calc_tour fuel cfg elapsed g None
   \<and> window_size (Some 0) k = int k \<and> window_size None k = int k
   \<and> compare_group st (Some 0) = compare_group st None"
  by (simp add: calc_tour_def extract_tour_zero window_size_def compare_group_def
      split: option.splits sum.splits)


subsection \<open>Crossover on an odd population\<close>

lemma shuffle_down_length: "length (fst (shuffle_down i a g)) = length a"
  by (induction i arbitrary: a g) (simp_all add: Let_def split: prod.splits)

lemma random_shuffle_length: "length (fst (random_shuffle a g)) = length a"
  by (simp add: random_shuffle_def shuffle_down_length)

lemma cross_couples_odd:
  assumes "length a = 2 * m + 1" "k \<le> m"
  shows "cross_couples cfg a (map (\<lambda>k. 2 * k) [k..<Suc m]) pop g = Inl IndexError"
  using assms(2)
proof (induction "m - k" arbitrary: k pop g)
  case 0
  then have "k = m" by simp
  then show ?case using assms(1) by (simp add: upt_rec [of m])
next
  case (Suc d)
  then have lt: "k < m" and d: "d = m - Suc k" by simp_all
  have "[k..<Suc m] = k # [Suc k..<Suc m]"
    using lt by (simp add: upt_rec [of k])
  moreover have "cross_couples cfg a (map (\<lambda>k. 2 * k) [Suc k..<Suc m]) pop' g' = Inl IndexError"
    for pop' g'
    using Suc.hyps(1) [of "Suc k" pop' g'] d lt by simp
  ultimately show ?case
    using assms(1) lt by (simp split: prod.splits)
qed

lemma calc_tour_odd_population:
  "calc_tour 5 odd_cfg no_time zero_rng None = Some (Inl IndexError)"
  by code_simp

text \<open>
  C4 (the code's behaviour). For every odd population size, \<open>_do_crossover\<close> does not
  complete: after the couples formed from the first \<open>P - 1\<close> shuffled indices,
  \<open>_iter_couples\<close> reads \<open>a[i + 1]\<close> with \<open>i + 1 = P\<close> and raises IndexError, whatever
  the population and the random choices are.
\<close>

theorem do_crossover_odd:
  assumes "odd (population_size cfg)"
  shows "do_crossover cfg st = Inl IndexError"
proof -
  obtain m where m: "population_size cfg = 2 * m + 1"
    using assms by (auto elim: oddE)
  obtain a g where sh: "random_shuffle [0..<population_size cfg] (rand st) = (a, g)"
    by (cases "random_shuffle [0..<population_size cfg] (rand st)")
  have "length a = 2 * m + 1"
    using random_shuffle_length [of "[0..<population_size cfg]" "rand st"] sh m by simp
  then have "cross_couples cfg a (map (\<lambda>k. 2 * k) [0..<Suc m]) (population st) g
      = Inl IndexError"
    by (rule cross_couples_odd) simp
  moreover have "couple_starts (population_size cfg) = map (\<lambda>k. 2 * k) [0..<Suc m]"
    by (simp add: couple_starts_def m)
  ultimately show ?thesis
    by (simp add: do_crossover_def sh)
qed

theorem do_crossover_odd_witness:
  "odd (population_size odd_cfg)
   \<and> do_crossover odd_cfg (sel_state\<lparr>population := [zero_individual, zero_individual, zero_individual]\<rparr>)
       = Inl IndexError
   \<and> calc_tour 5 odd_cfg no_time zero_rng None = Some (Inl IndexError)"
proof -
  have o: "odd (population_size odd_cfg)"
    by (simp add: odd_cfg_def GaSolver_def)
  show ?thesis
    using o do_crossover_odd [OF o] calc_tour_odd_population by simp
qed

subsection \<open>The two halves of the tour initialiser\<close>

lemma tour_directions_eq:
  "start cfg \<noteq> endp cfg \<Longrightarrow> tour_directions cfg =
     replicate (population_size cfg div 2) False
       @ replicate (population_size cfg - population_size cfg div 2) True"
  by (auto simp add: tour_directions_def tour_segments_def Let_def)

lemma init_population_tour_split:
  "init_population_tour fuel cfg g =
     (case tour_build_n fuel cfg (start cfg) (endp cfg) (population_size cfg div 2) g of
        None \<Rightarrow> None
      | Some (inds, g') \<Rightarrow>
          (case tour_build_n fuel cfg (endp cfg) (start cfg)
                  (population_size cfg - population_size cfg div 2) g' of
             None \<Rightarrow> None
           | Some (inds', g'') \<Rightarrow> Some (inds @ inds', g'')))"
  by (simp add: init_population_tour_def tour_segments_def Let_def
      split: option.splits prod.splits)

text \<open>
  C9 as stated fails for an odd population: with \<open>P = 3\<close> one individual is built
  forward from \<open>start\<close> (cost \<open>D[0,1] = 1\<close>) and two are built from \<open>end\<close> and reversed
  (cost \<open>D[1,0] = 2\<close>), so the forward count is not \<open>\<lceil>3/2\<rceil> = 2\<close>.
\<close>

theorem tour_forward_count_counterexample:
  "tour_directions odd_cfg = [False, True, True]
   \<and> length (filter (\<lambda>r. \<not> r) (tour_directions odd_cfg)) \<noteq> (population_size odd_cfg + 1) div 2
   \<and> init_population_tour 5 odd_cfg zero_rng
       = Some ([\<lparr>path = [0, 1], cost = 1, fitness = 0\<rparr>,
                \<lparr>path = [0, 1], cost = 2, fitness = 0\<rparr>,
                \<lparr>path = [0, 1], cost = 2, fitness = 0\<rparr>], zero_rng)"
  by code_simp

text \<open>
  C9 (amended). For \<open>start \<noteq> end\<close> and every population size \<open>P\<close>, the tour
  initialiser builds the first \<open>\<lfloor>P/2\<rfloor>\<close> individuals forward from \<open>start\<close> and the
  remaining \<open>P - \<lfloor>P/2\<rfloor> = \<lceil>P/2\<rceil>\<close> individuals from \<open>end\<close>, reversed before
  storing.
\<close>

theorem tour_halves:
  assumes "start cfg \<noteq> endp cfg"
  shows "length (filter (\<lambda>r. \<not> r) (tour_directions cfg)) = population_size cfg div 2
       \<and> length (filter (\<lambda>r. r) (tour_directions cfg)) = (population_size cfg + 1) div 2
       \<and> tour_directions cfg
           = replicate (population_size cfg div 2) False
               @ replicate (population_size cfg - population_size cfg div 2) True
       \<and> init_population_tour fuel cfg g =
           (case tour_build_n fuel cfg (start cfg) (endp cfg) (population_size cfg div 2) g of
              None \<Rightarrow> None
            | Some (inds, g') \<Rightarrow>
                (case tour_build_n fuel cfg (endp cfg) (start cfg)
                        (population_size cfg - population_size cfg div 2) g' of
                   None \<Rightarrow> None
                 | Some (inds', g'') \<Rightarrow> Some (inds @ inds', g'')))"
proof -
  have "population_size cfg - population_size cfg div 2 = (population_size cfg + 1) div 2"
    by linarith
  then show ?thesis
    using assms init_population_tour_split [of fuel cfg g]
    by (simp add: tour_directions_eq)
qed

theorem tour_halves_witness:
  "start odd_cfg \<noteq> endp odd_cfg
   \<and> length (filter (\<lambda>r. \<not> r) (tour_directions odd_cfg)) = 1
   \<and> length (filter (\<lambda>r. r) (tour_directions odd_cfg)) = 2"
proof -
  have ne: "start odd_cfg \<noteq> endp odd_cfg"
    by (simp add: odd_cfg_def GaSolver_def)
  show ?thesis
    using ne tour_halves [OF ne] by (simp add: odd_cfg_def GaSolver_def)
qed


subsection \<open>Tournament selection\<close>

lemma np_randint_eq:
  "np_randint n k (l, p) = (map (\<lambda>i. tape_at l (p + i) mod n) [0..<k], (l, p + k))"
proof (induction k arbitrary: p)
  case 0
  show ?case by simp
next
  case (Suc k)
  have "map (\<lambda>i. tape_at l (p + i) mod n) [0..<Suc k]
      = tape_at l p mod n # map (\<lambda>i. tape_at l (Suc p + i) mod n) [0..<k]"
    by (simp only: map_upt_Suc) simp
  then show ?case
    by (simp only: np_randint.simps draw_def fst_conv snd_conv Suc.IH prod.case) simp
qed

lemma select_offspring_eq:
  "select_offspring k n pop fit (l, p) =
     (map (\<lambda>j. pop ! tournament_winner fit (tournament_samples n (l, p) j)) [0..<k],
      (l, p + 10 * k))"
proof (induction k arbitrary: p)
  case 0
  show ?case by simp
next
  case (Suc k)
  have shift: "tournament_samples n (l, p + 10) j = tournament_samples n (l, p) (Suc j)" for j
    by (simp add: tournament_samples_def add.assoc add.left_commute)
  have first: "map (\<lambda>i. tape_at l (p + i) mod n) [0..<10] = tournament_samples n (l, p) 0"
    by (simp add: tournament_samples_def)
  have "select_offspring (Suc k) n pop fit (l, p) =
      (pop ! tournament_winner fit (tournament_samples n (l, p) 0)
         # map (\<lambda>j. pop ! tournament_winner fit (tournament_samples n (l, p + 10) j)) [0..<k],
       (l, p + 10 + 10 * k))"
    by (simp only: select_offspring.simps np_randint_eq Suc.IH prod.case first)
  also have "\<dots> = (map (\<lambda>j. pop ! tournament_winner fit (tournament_samples n (l, p) j)) [0..<Suc k],
       (l, p + 10 * Suc k))"
    by (simp only: map_upt_Suc [of _ k] shift) simp
  finally show ?case .
qed

lemma argmax_scan_inv:
  assumes "i \<le> length zs" "bi < i" "bv = zs ! bi" "\<forall>k<i. zs ! k \<le> bv"
  shows "argmax_scan bi bv i (drop i zs) < length zs
       \<and> (\<forall>k<length zs. zs ! k \<le> zs ! argmax_scan bi bv i (drop i zs))"
  using assms
proof (induction "length zs - i" arbitrary: i bi bv)
  case 0
  then show ?case by simp
next
  case (Suc d)
  then have lt: "i < length zs" and d: "d = length zs - Suc i" by simp_all
  have dr: "drop i zs = zs ! i # drop (Suc i) zs"
    using lt by (simp add: Cons_nth_drop_Suc)
  show ?case
  proof (cases "bv < zs ! i")
    case True
    have "\<forall>k<Suc i. zs ! k \<le> zs ! i"
      using Suc.prems(4) True by (force simp add: less_Suc_eq)
    then have "argmax_scan i (zs ! i) (Suc i) (drop (Suc i) zs) < length zs
       \<and> (\<forall>k<length zs. zs ! k \<le> zs ! argmax_scan i (zs ! i) (Suc i) (drop (Suc i) zs))"
      using lt d by (intro Suc.hyps(1)) simp_all
    then show ?thesis using True by (simp add: dr)
  next
    case False
    have "\<forall>k<Suc i. zs ! k \<le> bv"
      using Suc.prems(4) False by (force simp add: less_Suc_eq)
    then have "argmax_scan bi bv (Suc i) (drop (Suc i) zs) < length zs
       \<and> (\<forall>k<length zs. zs ! k \<le> zs ! argmax_scan bi bv (Suc i) (drop (Suc i) zs))"
      using lt d Suc.prems(2,3) by (intro Suc.hyps(1)) simp_all
    then show ?thesis using False by (simp add: dr)
  qed
qed

lemma argmax_Inr:
  assumes "argmax xs = Inr r"
  shows "r < length xs \<and> (\<forall>k<length xs. xs ! k \<le> xs ! r)"
proof (cases xs)
  case Nil
  then show ?thesis using assms by (simp add: argmax_def)
next
  case (Cons x ys)
  then have r: "r = argmax_scan 0 x 1 ys" using assms by (simp add: argmax_def)
  have "argmax_scan 0 (xs ! 0) 1 (drop 1 xs) < length xs
       \<and> (\<forall>k<length xs. xs ! k \<le> xs ! argmax_scan 0 (xs ! 0) 1 (drop 1 xs))"
    by (rule argmax_scan_inv) (simp_all add: Cons)
  then show ?thesis using Cons r by simp
qed

lemma argmax_nonempty: "xs \<noteq> [] \<Longrightarrow> \<exists>r. argmax xs = Inr r"
  by (cases xs) (simp_all add: argmax_def)

lemma tournament_winner_best:
  assumes "s \<noteq> []"
  shows "tournament_winner fit s \<in> set s
       \<and> (\<forall>k\<in>set s. fit ! k \<le> fit ! tournament_winner fit s)"
proof -
  obtain r where r: "argmax (map (\<lambda>i. fit ! i) s) = Inr r"
    using argmax_nonempty [of "map (\<lambda>i. fit ! i) s"] assms by auto
  from argmax_Inr [OF r] have rl: "r < length s"
    and best: "\<forall>k<length s. fit ! (s ! k) \<le> fit ! (s ! r)" by auto
  have w: "tournament_winner fit s = s ! r" by (simp add: tournament_winner_def r)
  have "fit ! k \<le> fit ! (s ! r)" if kin: "k \<in> set s" for k
  proof -
    obtain i where "i < length s" "s ! i = k"
      using kin by (auto simp add: in_set_conv_nth)
    then show ?thesis using best rl by auto
  qed
  then show ?thesis using rl by (simp add: w)
qed

lemma tournament_samples_range:
  "0 < n \<Longrightarrow> length (tournament_samples n g j) = 10 \<and> set (tournament_samples n g j) \<subseteq> {0..<n}"
  by (auto simp add: tournament_samples_def)

lemma scored_nth:
  "k < length pop \<Longrightarrow>
     map (\<lambda>(ind, f). ind\<lparr>fitness := f\<rparr>) (zip pop (fitness_values cfg pop)) ! k
       = (pop ! k)\<lparr>fitness := fitness_of cfg (pop ! k)\<rparr>"
  by (simp add: fitness_values_def)

lemma calc_fitness_tournament_size:
  "calc_fitness (cfg\<lparr>tournament_size := T\<rparr>) pop = calc_fitness cfg pop"
  by (simp add: calc_fitness_def fitness_values_def fitness_of_def int_fitness_def
      max_cost_def)

lemma calc_fitness_Inr:
  "calc_fitness cfg pop = Inr fit \<Longrightarrow> fit = fitness_values cfg pop"
  by (simp add: calc_fitness_def split: if_splits)

lemma do_selection_ignores_size:
  "do_selection (cfg\<lparr>tournament_size := T\<rparr>) st = do_selection cfg st"
  by (simp add: do_selection_def calc_fitness_tournament_size Let_def
      split: sum.splits)

lemma do_selection_Inr:
  assumes "do_selection cfg st = Inr st'"
  shows "population st' =
           map (\<lambda>j. map (\<lambda>(ind, f). ind\<lparr>fitness := f\<rparr>)
                        (zip (population st) (fitness_values cfg (population st)))
                    ! tournament_winner (fitness_values cfg (population st))
                        (tournament_samples (population_size cfg) (rand st) j))
             [0..<population_size cfg]
       \<and> rand st' = (fst (rand st), snd (rand st) + 10 * population_size cfg)"
proof -
  obtain l p where g: "rand st = (l, p)" by (cases "rand st")
  show ?thesis
    using assms
    by (auto simp add: do_selection_def Let_def g select_offspring_eq
        split: sum.splits if_splits dest!: calc_fitness_Inr)
qed

text \<open>
  C6. Whatever the configured \<open>tournament_size\<close> is, a selection that returns fills
  every offspring slot \<open>j\<close> from exactly ten oracle draws, each reduced to \<open>[0, P)\<close> (so
  indices may repeat), and copies the sampled individual of greatest fitness; the
  selection consumes \<open>10 * P\<close> draws in all, and changing \<open>tournament_size\<close> changes
  nothing. That the draws are uniform is a property of the oracle, numpy's generator.
\<close>

theorem do_selection_tournament:
  assumes sel: "do_selection cfg st = Inr st'"
    and len: "length (population st) = population_size cfg"
    and j: "j < population_size cfg"
  shows "length (population st') = population_size cfg
       \<and> length (tournament_samples (population_size cfg) (rand st) j) = 10
       \<and> set (tournament_samples (population_size cfg) (rand st) j) \<subseteq> {0..<population_size cfg}
       \<and> (\<exists>w \<in> set (tournament_samples (population_size cfg) (rand st) j).
            (\<forall>k \<in> set (tournament_samples (population_size cfg) (rand st) j).
               fitness_of cfg (population st ! k) \<le> fitness_of cfg (population st ! w))
            \<and> population st' ! j = (population st ! w)\<lparr>fitness := fitness_of cfg (population st ! w)\<rparr>)
       \<and> rand st' = (fst (rand st), snd (rand st) + 10 * population_size cfg)
       \<and> do_selection (cfg\<lparr>tournament_size := T\<rparr>) st = Inr st'"
proof -
  let ?n = "population_size cfg"
  let ?s = "tournament_samples ?n (rand st) j"
  let ?fit = "fitness_values cfg (population st)"
  let ?w = "tournament_winner ?fit ?s"
  have n: "0 < ?n" using j by simp
  have rng: "length ?s = 10" "set ?s \<subseteq> {0..<?n}"
    using tournament_samples_range [OF n] by simp_all
  then have ne: "?s \<noteq> []" by auto
  have win: "?w \<in> set ?s" and best: "\<forall>k\<in>set ?s. ?fit ! k \<le> ?fit ! ?w"
    using tournament_winner_best [OF ne] by simp_all
  have inr: "k < ?n" if "k \<in> set ?s" for k
    using that rng(2) by auto
  have fitk: "?fit ! k = fitness_of cfg (population st ! k)" if "k \<in> set ?s" for k
    using inr [OF that] len by (simp add: fitness_values_def)
  have best': "\<forall>k\<in>set ?s. fitness_of cfg (population st ! k) \<le> fitness_of cfg (population st ! ?w)"
    using best fitk win by simp
  have pop: "population st' ! j = (population st ! ?w)\<lparr>fitness := fitness_of cfg (population st ! ?w)\<rparr>"
    using do_selection_Inr [OF sel] j inr [OF win] len by (simp add: scored_nth)
  have "length (population st') = ?n"
    using do_selection_Inr [OF sel] by simp
  moreover have "rand st' = (fst (rand st), snd (rand st) + 10 * ?n)"
    using do_selection_Inr [OF sel] by simp
  moreover have "do_selection (cfg\<lparr>tournament_size := T\<rparr>) st = Inr st'"
    using sel by (simp only: do_selection_ignores_size)
  ultimately show ?thesis
    using rng win best' pop by blast
qed


lemma do_selection_example:
  "do_selection sel_cfg sel_state =
     Inr \<lparr>population = [\<lparr>path = [0, 2, 1], cost = 4, fitness = 26\<rparr>,
                        \<lparr>path = [0, 1], cost = 4, fitness = 16\<rparr>],
          fittest = [\<lparr>path = [0, 2, 1], cost = 4, fitness = 26\<rparr>],
          current_generation = 0, rand = ([1], 20)\<rparr>"
  by code_simp

theorem do_selection_tournament_witness:
  "length (population sel_state) = population_size sel_cfg
   \<and> 0 < population_size sel_cfg
   \<and> do_selection (sel_cfg\<lparr>tournament_size := 7\<rparr>) sel_state =
       Inr \<lparr>population = [\<lparr>path = [0, 2, 1], cost = 4, fitness = 26\<rparr>,
                          \<lparr>path = [0, 1], cost = 4, fitness = 16\<rparr>],
            fittest = [\<lparr>path = [0, 2, 1], cost = 4, fitness = 26\<rparr>],
            current_generation = 0, rand = ([1], 20)\<rparr>"
proof -
  have len: "length (population sel_state) = population_size sel_cfg"
    and pos: "0 < population_size sel_cfg"
    by (simp_all add: sel_state_def sel_cfg_def)
  show ?thesis
    using len pos do_selection_tournament [OF do_selection_example len pos, of 7]
    by simp
qed


subsection \<open>Paths of the population are never empty\<close>




























subsection \<open>The early exit of \<open>calc_tour\<close>\<close>





subsection \<open>Stored cost against the cost of the stored path\<close>

lemma stale_run:
  "run 10 stale_cfg no_time zero_rng =
     Some (Inr \<lparr>population = [\<lparr>path = [0, 1], cost = 7, fitness = 13\<rparr>,
                               \<lparr>path = [0, 1], cost = 7, fitness = 13\<rparr>],
                 fittest = [\<lparr>path = [0, 3, 1], cost = 8, fitness = 22\<rparr>,
                            \<lparr>path = [0, 1], cost = 7, fitness = 13\<rparr>],
                 current_generation = 1, rand = ([], 75)\<rparr>)"
  by code_simp

lemma stale_mutation:
  "mutate_individual stale_cfg \<lparr>path = [0, 2, 3, 1], cost = 8, fitness = 32\<rparr> zero_rng
     = Inr (\<lparr>path = [0, 3, 1], cost = 8, fitness = 32\<rparr>, ([], 2))"
  by code_simp

lemma stale_costs:
  "path_cost (distances stale_cfg) [0, 2, 3, 1] = 8
   \<and> path_cost (distances stale_cfg) [0, 3, 1] = 7
   \<and> path_cost (distances stale_cfg) [0, 1] = 6"
  by code_simp

lemma stale_result:
  "calc_tour 10 stale_cfg no_time zero_rng None = Some (Inr ([0, 3, 1], 8))"
  by code_simp

text \<open>
  C2 (the code's behaviour at a failing input). On five locations with a symmetric
  matrix and budget 10, the mutation of the individual \<open>[0, 2, 3, 1]\<close> (cost 8)
  deletes location 2 after having written the cost, and the first insertion candidate
  does not fit, so the loop ends with the path \<open>[0, 3, 1]\<close> and the stored cost 8
  although the path costs 7. The run ends with a population and a best log whose
  stored costs differ from the costs of the stored paths, and \<open>calc_tour\<close> returns such
  a pair.
\<close>

theorem stored_cost_stale_after_mutation:
  "mutate_individual stale_cfg \<lparr>path = [0, 2, 3, 1], cost = 8, fitness = 32\<rparr> zero_rng
     = Inr (\<lparr>path = [0, 3, 1], cost = 8, fitness = 32\<rparr>, ([], 2))
   \<and> path_cost (distances stale_cfg) [0, 3, 1] = 7
   \<and> path_cost (distances stale_cfg) [0, 1] = 6
   \<and> run 10 stale_cfg no_time zero_rng =
       Some (Inr \<lparr>population = [\<lparr>path = [0, 1], cost = 7, fitness = 13\<rparr>,
                                 \<lparr>path = [0, 1], cost = 7, fitness = 13\<rparr>],
                   fittest = [\<lparr>path = [0, 3, 1], cost = 8, fitness = 22\<rparr>,
                              \<lparr>path = [0, 1], cost = 7, fitness = 13\<rparr>],
                   current_generation = 1, rand = ([], 75)\<rparr>)
   \<and> calc_tour 10 stale_cfg no_time zero_rng None = Some (Inr ([0, 3, 1], 8))"
  using stale_run stale_mutation stale_costs stale_result by simp

subsection \<open>Stored cost against the budget\<close>

lemma tight_init:
  "init_population 10 tight_cfg zero_rng =
     Some ([\<lparr>path = [0, 2, 1], cost = 10, fitness = 0\<rparr>,
            \<lparr>path = [0, 2, 1], cost = 10, fitness = 0\<rparr>], ([], 2))"
  by code_simp

lemma tight_result:
  "calc_tour 10 tight_cfg no_time zero_rng None = Some (Inr ([0, 1], 10))"
  by code_simp

text \<open>
  C3 (the code's behaviour at a failing input). With \<open>D[0,2] = D[2,1] = 5\<close>,
  \<open>D[0,1] = 8\<close> and budget 10 the early exit is not taken, and the tour initialiser,
  whose candidate test is \<open>\<le>\<close>, stores both individuals with cost 10, which is not
  below the budget; \<open>calc_tour\<close> returns cost 10.
\<close>

theorem initial_cost_reaches_max_cost:
  "\<not> max_cost tight_cfg < distances tight_cfg (start tight_cfg) (endp tight_cfg)
   \<and> distances tight_cfg (start tight_cfg) (endp tight_cfg) < max_cost tight_cfg
   \<and> max_cost tight_cfg = 10
   \<and> init_population 10 tight_cfg zero_rng =
       Some ([\<lparr>path = [0, 2, 1], cost = 10, fitness = 0\<rparr>,
              \<lparr>path = [0, 2, 1], cost = 10, fitness = 0\<rparr>], ([], 2))
   \<and> calc_tour 10 tight_cfg no_time zero_rng None = Some (Inr ([0, 1], 10))"
proof -
  have "distances tight_cfg (start tight_cfg) (endp tight_cfg) = 8"
    and "max_cost tight_cfg = 10"
    by (simp_all add: tight_cfg_def GaSolver_def matrix_def max_cost_def)
  then show ?thesis
    using tight_init tight_result by simp
qed

subsection \<open>The default comparison window\<close>

lemma default_window_prefix:
  "current_generation st \<le> length (fittest st) \<Longrightarrow>
     compare_group st None = take (current_generation st) (fittest st)"
  by (simp add: compare_group_def window_size_def py_slice_def py_bound_def Let_def)

lemma window_run:
  "run 10 window_cfg no_time zero_rng =
     Some (Inr \<lparr>population = [\<lparr>path = [0, 1], cost = 7, fitness = 13\<rparr>,
                               \<lparr>path = [0, 1], cost = 7, fitness = 13\<rparr>],
                 fittest = [\<lparr>path = [0, 3, 1], cost = 8, fitness = 22\<rparr>,
                            \<lparr>path = [0, 1], cost = 7, fitness = 13\<rparr>,
                            \<lparr>path = [0, 1], cost = 7, fitness = 13\<rparr>],
                 current_generation = 2, rand = ([], 98)\<rparr>)"
  by code_simp

lemma window_result:
  "calc_tour 10 window_cfg no_time zero_rng None = Some (Inr ([0, 3, 1], 8))"
  by code_simp

lemma window_group:
  "compare_group
     \<lparr>population = [\<lparr>path = [0, 1], cost = 7, fitness = 13\<rparr>,
                    \<lparr>path = [0, 1], cost = 7, fitness = 13\<rparr>],
      fittest = [\<lparr>path = [0, 3, 1], cost = 8, fitness = 22\<rparr>,
                 \<lparr>path = [0, 1], cost = 7, fitness = 13\<rparr>,
                 \<lparr>path = [0, 1], cost = 7, fitness = 13\<rparr>],
      current_generation = 2, rand = ([], 98)\<rparr> None
   = [\<lparr>path = [0, 3, 1], cost = 8, fitness = 22\<rparr>,
      \<lparr>path = [0, 1], cost = 7, fitness = 13\<rparr>]"
  by code_simp

text \<open>
  C5 (the code's behaviour at a failing input). A run of generations 0, 1 and 2 leaves
  \<open>current_generation = 2\<close>; with \<open>last_n\<close> omitted the comparison group is
  \<open>fittest[0:2]\<close>, the entries of generations 0 and 1. The result \<open>([0, 3, 1], 8)\<close> is
  the entry of generation 0, which the claim excludes; the entries of generations 1
  and 2 both hold \<open>([0, 1], 7)\<close>, and the entry of generation 2 is not compared.
\<close>

theorem default_window_includes_generation_zero:
  "run 10 window_cfg no_time zero_rng =
     Some (Inr \<lparr>population = [\<lparr>path = [0, 1], cost = 7, fitness = 13\<rparr>,
                               \<lparr>path = [0, 1], cost = 7, fitness = 13\<rparr>],
                 fittest = [\<lparr>path = [0, 3, 1], cost = 8, fitness = 22\<rparr>,
                            \<lparr>path = [0, 1], cost = 7, fitness = 13\<rparr>,
                            \<lparr>path = [0, 1], cost = 7, fitness = 13\<rparr>],
                 current_generation = 2, rand = ([], 98)\<rparr>)
   \<and> compare_group
       \<lparr>population = [\<lparr>path = [0, 1], cost = 7, fitness = 13\<rparr>,
                      \<lparr>path = [0, 1], cost = 7, fitness = 13\<rparr>],
        fittest = [\<lparr>path = [0, 3, 1], cost = 8, fitness = 22\<rparr>,
                   \<lparr>path = [0, 1], cost = 7, fitness = 13\<rparr>,
                   \<lparr>path = [0, 1], cost = 7, fitness = 13\<rparr>],
        current_generation = 2, rand = ([], 98)\<rparr> None
     = [\<lparr>path = [0, 3, 1], cost = 8, fitness = 22\<rparr>,
        \<lparr>path = [0, 1], cost = 7, fitness = 13\<rparr>]
   \<and> calc_tour 10 window_cfg no_time zero_rng None = Some (Inr ([0, 3, 1], 8))"
  using window_run window_group window_result by simp

end
